theory Spec2Isabelle
  imports Main "HOL-Library.Word"
begin

section \<open>Bytes, error kinds and the outside world\<close>

type_synonym byte = "8 word"
type_synonym bytes = "byte list"

text \<open>
  A Go byte slice that may be \<open>nil\<close> is a \<open>bytes option\<close>: \<open>None\<close> is the nil slice.
  Writing it, comparing it with \<open>bytes.Equal\<close> or passing it on reads it as the empty
  sequence, which is what \<open>slice\<close> does.
\<close>

definition slice :: "bytes option \<Rightarrow> bytes" where
  "slice b = (case b of None \<Rightarrow> [] | Some xs \<Rightarrow> xs)"

text \<open>The error kinds of package \<open>errors\<close>, in the order of its constant block.\<close>

datatype Kind =
    errors_Other | errors_Invalid | errors_PhraseIsEmpty | errors_PhraseMismatch
  | errors_PhraseOther | errors_Permissions | errors_Create | errors_Open | errors_Exist
  | errors_NotExist | errors_IsDir | errors_Pattern | errors_Signature | errors_Metadata
  | errors_NotReady | errors_BlockSize | errors_Nonce | errors_NonceSize | errors_Salt
  | errors_SaltSize | errors_Ciphertext | errors_Cipher | errors_Plaintext | errors_Encode
  | errors_Decode | errors_Incompatible | errors_Decrypt | errors_Encrypt | errors_Internal

text \<open>
  An error value is \<open>E kind\<close> (the result of \<open>errors.E(kind, op, ...)\<close>, of which only the
  kind is kept); \<open>Panic\<close> is a run-time panic (a nil pointer dereference, a wrong nonce
  length handed to the AEAD), which no caller recovers from.
\<close>

datatype error = E Kind | Panic

text \<open>
  An \<open>io.Reader\<close> is the bytes it still holds. \<open>rfail\<close> says how it ends: with an
  I/O error once the bytes are used up, or with a plain end of file. The process-wide
  random source \<open>rand.Reader\<close> is threaded through the functions that read it as such a
  reader.
\<close>

record reader =
  rdata :: bytes
  rfail :: bool

text \<open>
  \<open>io.ReadFull(r, buf)\<close> for a buffer of \<open>n\<close> zero bytes: the buffer afterwards, the
  number of bytes read, whether an error is returned, and the reader afterwards. It
  fails exactly when fewer than \<open>n\<close> bytes are left; the bytes it did read stay in
  the buffer.
\<close>

definition ReadFull :: "reader \<Rightarrow> nat \<Rightarrow> bytes \<times> nat \<times> bool \<times> reader" where
  "ReadFull r n =
     (if n \<le> length (rdata r)
      then (take n (rdata r), n, False, r\<lparr>rdata := drop n (rdata r)\<rparr>)
      else (rdata r @ replicate (n - length (rdata r)) 0, length (rdata r), True,
            r\<lparr>rdata := []\<rparr>))"

text \<open>\<open>ioutil.ReadAll(r)\<close>: everything that is left, and the reader's own error if it has one.\<close>

definition ReadAll :: "reader \<Rightarrow> bytes \<times> bool \<times> reader" where
  "ReadAll r = (rdata r, rfail r, r\<lparr>rdata := []\<rparr>)"

text \<open>
  An \<open>io.Writer\<close> is a sink state of any type with its \<open>Write\<close> method: the call returns
  the number of bytes written, whether it failed, and the sink afterwards.
\<close>

type_synonym 'w writer = "'w \<Rightarrow> bytes \<Rightarrow> nat \<times> bool \<times> 'w"

text \<open>A \<open>bytes.Buffer\<close>: every write appends and succeeds.\<close>

definition buffer_Write :: "bytes writer" where
  "buffer_Write w p = (length p, False, w @ p)"

text \<open>
  The cryptographic libraries the package calls, taken as parameters. \<open>'a\<close> is the
  type of a constructed \<open>cipher.AEAD\<close>.
  \<^item> \<open>argon2_IDKey phrase salt keyLen\<close> is \<open>argon2.IDKey(phrase, salt, 1, 64*1024, 4, keyLen)\<close>;
  \<^item> \<open>aes_NewGCM key\<close> is \<open>aes.NewCipher(key)\<close> followed by \<open>cipher.NewGCM(block)\<close>,
    \<open>None\<close> when either returns an error;
  \<^item> \<open>aead_NonceSize\<close>, \<open>aead_Seal\<close> and \<open>aead_Open\<close> are the methods of the AEAD, with
    destination \<open>nil\<close>; \<open>aead_Open\<close> is \<open>None\<close> when authentication fails.
\<close>

record 'a crypto =
  argon2_IDKey :: "bytes \<Rightarrow> bytes \<Rightarrow> nat \<Rightarrow> bytes"
  aes_NewGCM :: "bytes \<Rightarrow> 'a option"
  aead_NonceSize :: "'a \<Rightarrow> nat"
  aead_Seal :: "'a \<Rightarrow> bytes \<Rightarrow> bytes \<Rightarrow> bytes \<Rightarrow> bytes"
  aead_Open :: "'a \<Rightarrow> bytes \<Rightarrow> bytes \<Rightarrow> bytes \<Rightarrow> bytes option"

section \<open>celo.go: constants and the shared state\<close>

definition Aes256BlockSize :: nat where "Aes256BlockSize = 32"
definition SaltSize :: nat where "SaltSize = 32"
definition NonceSize :: nat where "NonceSize = 12"
definition Extension :: string where "Extension = ''celo''"
definition Version :: nat where "Version = 1"
definition MinVersion :: byte where "MinVersion = 1"
definition MaxVersion :: byte where "MaxVersion = 1"

section \<open>metadata.go\<close>

definition SignatureSize :: nat where "SignatureSize = 32"

definition signatureHeader :: bytes where
  "signatureHeader = [0x0A, 0x1A, 0x43, 0x45, 0x4C, 0x4F, 0x0A, 0x1A]"

definition versionIndex :: nat where "versionIndex = 0"
definition saltSizeIndex :: nat where "saltSizeIndex = 1"
definition blockSizeIndex :: nat where "blockSizeIndex = 2"
definition nonceSizeIndex :: nat where "nonceSizeIndex = 3"

text \<open>
  The three fields are Go arrays of 8, 4 and 20 bytes; every value built below has
  these lengths.
\<close>

record Metadata =
  signature :: bytes
  vsbn :: bytes
  reserved :: bytes

text \<open>
  \<open>Metadata.Bytes\<close>: a fresh buffer of 32 zero bytes, the signature copied in by the
  loop, then the four bytes of \<open>vsbn\<close>. The reserved bytes are not copied.
\<close>

definition Bytes :: "Metadata \<Rightarrow> bytes" where
  "Bytes m =
     (let b = replicate SignatureSize (0::byte);
          b = fold (\<lambda>i b. b[i := signature m ! i]) [0..<8] b;
          b = b[8 := vsbn m ! versionIndex];
          b = b[9 := vsbn m ! saltSizeIndex];
          b = b[10 := vsbn m ! blockSizeIndex];
          b = b[11 := vsbn m ! nonceSizeIndex]
      in b)"

definition ValidateMetadata :: "bytes \<Rightarrow> bytes \<Rightarrow> bytes \<Rightarrow> error option" where
  "ValidateMetadata sig v res =
     (if sig \<noteq> signatureHeader then Some (E errors_Signature)
      else if v ! versionIndex < MinVersion \<or> v ! versionIndex > MaxVersion
        then Some (E errors_Incompatible)
      else if v ! blockSizeIndex \<noteq> 16 \<and> v ! blockSizeIndex \<noteq> 32
        then Some (E errors_NonceSize)
      else if v ! nonceSizeIndex > 32 then Some (E errors_NonceSize)
      else None)"

text \<open>
  \<open>DecodeMetadata\<close>. The result parameter \<open>n\<close> and the locals \<open>vn\<close>, \<open>rn\<close> start at 0.
  Each \<open>if x, err := io.ReadFull(...); err != nil\<close> declares a new \<open>x\<close> that lives in
  that \<open>if\<close> only (\<open>n1\<close>, \<open>vn1\<close>, \<open>rn1\<close> below); the additions after the \<open>if\<close>s read
  the outer variables.
\<close>

definition DecodeMetadata :: "reader \<Rightarrow> (Metadata option \<times> nat \<times> error option) \<times> reader" where
  "DecodeMetadata r =
     (let n = (0::nat); vn = (0::nat); rn = (0::nat) in
      case ReadFull r 8 of (sig, n1, err1, r1) \<Rightarrow>
      if err1 then ((None, n1, Some (E errors_Metadata)), r1)
      else case ReadFull r1 4 of (v, vn1, err2, r2) \<Rightarrow>
      if err2 then ((None, n + vn1, Some (E errors_Metadata)), r2)
      else let n = n + vn in
      case ReadFull r2 20 of (res, rn1, err3, r3) \<Rightarrow>
      if err3 then ((None, n + rn1, Some (E errors_Metadata)), r3)
      else let n = n + rn in
      case ValidateMetadata sig v res of
        Some err \<Rightarrow> ((None, n, Some err), r3)
      | None \<Rightarrow> ((Some \<lparr>signature = sig, vsbn = v, reserved = res\<rparr>, n, None), r3))"

definition newCurrentMetadata :: Metadata where
  "newCurrentMetadata =
     \<lparr>signature = signatureHeader,
      vsbn = [of_nat Version, of_nat SaltSize, of_nat Aes256BlockSize, of_nat NonceSize],
      reserved = replicate 20 0\<rparr>"

section \<open>cipher.go\<close>

record 'a Cipher =
  cblockSize :: nat
  aead :: 'a

definition NewCipher :: "'a crypto \<Rightarrow> nat \<Rightarrow> nat \<Rightarrow> bytes \<Rightarrow> error + 'a Cipher" where
  "NewCipher L blockSize nonceSize key =
     (case aes_NewGCM L key of
        None \<Rightarrow> Inl (E errors_Cipher)
      | Some a \<Rightarrow> Inr \<lparr>cblockSize = blockSize, aead = a\<rparr>)"

text \<open>
  \<open>Cipher.Encrypt\<close>: a fresh nonce of the AEAD's nonce size from the random source
  \<open>rnd\<close>, then \<open>Seal\<close>. Returns nonce, ciphertext, error and the random source afterwards.
\<close>

definition Cipher_Encrypt ::
  "'a crypto \<Rightarrow> 'a Cipher \<Rightarrow> reader \<Rightarrow> bytes \<Rightarrow> bytes option
     \<Rightarrow> (bytes option \<times> bytes option \<times> error option) \<times> reader" where
  "Cipher_Encrypt L c rnd plaintext additionalData =
     (case ReadFull rnd (aead_NonceSize L (aead c)) of (nonce, _, err, rnd1) \<Rightarrow>
      if err then ((None, None, Some (E errors_Encrypt)), rnd1)
      else ((Some nonce,
             Some (aead_Seal L (aead c) nonce plaintext (slice additionalData)),
             None), rnd1))"

text \<open>
  \<open>Cipher.Decrypt\<close>. \<open>Open\<close> of Go's GCM panics when the nonce does not have the
  AEAD's nonce size; any other failure is its error, reported as kind \<open>Decrypt\<close>.
\<close>

definition Cipher_Decrypt ::
  "'a crypto \<Rightarrow> 'a Cipher \<Rightarrow> bytes option \<Rightarrow> bytes option \<Rightarrow> bytes option \<times> error option" where
  "Cipher_Decrypt L c nonce ciphertext =
     (if length (slice nonce) \<noteq> aead_NonceSize L (aead c) then (None, Some Panic)
      else case aead_Open L (aead c) (slice nonce) (slice ciphertext) [] of
        None \<Rightarrow> (None, Some (E errors_Decrypt))
      | Some plaintext \<Rightarrow> (Some plaintext, None))"

section \<open>celo.go: the state shared by Encrypter and Decrypter\<close>

record 'a celo =
  metadata :: "Metadata option"
  blockSize :: nat
  saltSize :: nat
  nonceSize :: nat
  salt :: "bytes option"
  nonce :: "bytes option"
  ciphertext :: "bytes option"
  cipher :: "'a Cipher option"
  ext :: string
  preserveKey :: bool
  initialized :: bool

definition IsReady :: "'a celo \<Rightarrow> bool" where
  "IsReady c = initialized c"

definition Wipe :: "'a celo \<Rightarrow> 'a celo" where
  "Wipe c = c\<lparr>nonce := None, ciphertext := None, salt := None, cipher := None,
              initialized := False\<rparr>"

text \<open>\<open>strings.HasPrefix\<close>, \<open>strings.HasSuffix\<close> and \<open>strings.TrimSuffix\<close>.\<close>

definition HasPrefix :: "string \<Rightarrow> string \<Rightarrow> bool" where
  "HasPrefix s p = (length p \<le> length s \<and> take (length p) s = p)"

definition HasSuffix :: "string \<Rightarrow> string \<Rightarrow> bool" where
  "HasSuffix s suf = (length suf \<le> length s \<and> drop (length s - length suf) s = suf)"

definition TrimSuffix :: "string \<Rightarrow> string \<Rightarrow> string" where
  "TrimSuffix s suf = (if HasSuffix s suf then take (length s - length suf) s else s)"

text \<open>The two name helpers take the name of the open file, \<open>f.Name()\<close>.\<close>

definition GetEncryptedFileName :: "'a celo \<Rightarrow> string \<Rightarrow> string" where
  "GetEncryptedFileName c name =
     (if ext c = [] then name
      else let e = ext c;
               e = (if \<not> HasPrefix e ''.'' then ''.'' @ e else e)
           in name @ e)"

definition GetDecryptedFileName :: "'a celo \<Rightarrow> string \<Rightarrow> string" where
  "GetDecryptedFileName c name =
     (if ext c = [] then name
      else let e = ext c;
               e = (if \<not> HasPrefix e ''.'' then ''.'' @ e else e)
           in if HasSuffix name e \<and> name \<noteq> e then TrimSuffix name e else name)"

definition SetExtension :: "string \<Rightarrow> 'a celo \<Rightarrow> 'a celo" where
  "SetExtension x c = c\<lparr>ext := x\<rparr>"

section \<open>phrase.go\<close>

text \<open>
  \<open>NewSalt\<close> reads \<open>saltSize\<close> bytes from the random source \<open>rnd\<close>: the salt (nil on
  failure), the number of bytes read, the error, and the random source afterwards.
\<close>

definition NewSalt :: "reader \<Rightarrow> nat \<Rightarrow> (bytes option \<times> nat \<times> error option) \<times> reader" where
  "NewSalt rnd sz =
     (case ReadFull rnd sz of (buf, n, err, rnd1) \<Rightarrow>
      if err then ((None, n, Some (E errors_Salt)), rnd1)
      else ((Some buf, n, None), rnd1))"

definition GenerateKey :: "'a crypto \<Rightarrow> bytes \<Rightarrow> bytes option \<Rightarrow> nat \<Rightarrow> bytes" where
  "GenerateKey L phrase s keyLen = argon2_IDKey L phrase (slice s) keyLen"

text \<open>The conversion \<open>uint32(e.blockSize)\<close> at the call sites of \<open>GenerateKey\<close>.\<close>

definition uint32 :: "nat \<Rightarrow> nat" where
  "uint32 n = n mod 2 ^ 32"

section \<open>encrypter.go\<close>

definition NewEncrypter :: "'a celo" where
  "NewEncrypter =
     \<lparr>metadata = Some newCurrentMetadata, blockSize = Aes256BlockSize, saltSize = SaltSize,
      nonceSize = NonceSize, salt = None, nonce = None, ciphertext = None, cipher = None,
      ext = Extension, preserveKey = False, initialized = False\<rparr>"

text \<open>
  \<open>Encrypter.Init\<close>: the error, the Encrypter afterwards and the random source
  afterwards. The flag is set before the salt is drawn, and the salt field is assigned
  whatever \<open>NewSalt\<close> returns, nil included.
\<close>

definition Encrypter_Init ::
  "'a crypto \<Rightarrow> 'a celo \<Rightarrow> reader \<Rightarrow> bytes \<Rightarrow> error option \<times> 'a celo \<times> reader" where
  "Encrypter_Init L e rnd secretPhrase =
     (if initialized e \<and> preserveKey e then (None, e, rnd)
      else let e = e\<lparr>initialized := True\<rparr> in
      case NewSalt rnd (saltSize e) of ((s, _, err), rnd1) \<Rightarrow>
      let e = e\<lparr>salt := s\<rparr> in
      if err \<noteq> None then (err, e, rnd1)
      else case NewCipher L (blockSize e) (nonceSize e)
                  (GenerateKey L secretPhrase (salt e) (uint32 (blockSize e))) of
        Inl err \<Rightarrow> (Some err, e, rnd1)
      | Inr c \<Rightarrow> (None, e\<lparr>cipher := Some c\<rparr>, rnd1))"

text \<open>
  \<open>Encrypter.Encrypt\<close>. The call \<open>e.cipher.Encrypt\<close> on a nil cipher panics. Its three
  results are assigned to the local nonce, to \<open>e.ciphertext\<close> and to \<open>err\<close> before the
  error is looked at.
\<close>

definition Encrypter_Encrypt ::
  "'a crypto \<Rightarrow> 'a celo \<Rightarrow> reader \<Rightarrow> bytes \<Rightarrow> bytes
     \<Rightarrow> (bytes option \<times> error option) \<times> 'a celo \<times> reader" where
  "Encrypter_Encrypt L e rnd secretPhrase plaintext =
     (case Encrypter_Init L e rnd secretPhrase of
        (Some err, e, rnd1) \<Rightarrow> ((None, Some err), e, rnd1)
      | (None, e, rnd1) \<Rightarrow>
        (case cipher e of
           None \<Rightarrow> ((None, Some Panic), e, rnd1)
         | Some c \<Rightarrow>
           (case Cipher_Encrypt L c rnd1 plaintext None of ((nonce1, ct, err), rnd2) \<Rightarrow>
            let e = e\<lparr>ciphertext := ct\<rparr> in
            if err \<noteq> None then ((None, err), e, rnd2)
            else let e = e\<lparr>nonce := nonce1\<rparr> in ((ciphertext e, None), e, rnd2))))"

text \<open>
  \<open>Encrypter.Write\<close>. The result parameter \<open>n\<close> and the locals \<open>sn\<close>, \<open>nn\<close>, \<open>cn\<close>
  start at 0. Each \<open>if x, err := w.Write(...); err != nil\<close> declares a new \<open>x\<close> that
  lives in that \<open>if\<close> only (\<open>sn1\<close>, \<open>n1\<close>, \<open>nn1\<close>, \<open>cn1\<close> below); the additions after
  the \<open>if\<close>s and the final \<open>return n + cn\<close> read the outer variables.
  \<open>e.metadata.Bytes()\<close> on a nil metadata panics.
\<close>

definition Encrypter_Write ::
  "'w writer \<Rightarrow> 'a celo \<Rightarrow> 'w \<Rightarrow> (nat \<times> error option) \<times> 'w" where
  "Encrypter_Write wr e w =
     (if \<not> IsReady e then ((0, Some (E errors_NotReady)), w)
      else let n = (0::nat); sn = (0::nat); nn = (0::nat); cn = (0::nat) in
      case metadata e of
        None \<Rightarrow> ((0, Some Panic), w)
      | Some m \<Rightarrow>
      case wr w (Bytes m) of (sn1, err1, w1) \<Rightarrow>
      if err1 then ((sn1, Some (E errors_Encode)), w1)
      else case wr w1 (slice (salt e)) of (n1, err2, w2) \<Rightarrow>
      if err2 then ((n1 + sn, Some (E errors_Encode)), w2)
      else let n = n + sn in
      case wr w2 (slice (nonce e)) of (nn1, err3, w3) \<Rightarrow>
      if err3 then ((n + nn1, Some (E errors_Encode)), w3)
      else let n = n + nn in
      case wr w3 (slice (ciphertext e)) of (cn1, err4, w4) \<Rightarrow>
      if err4 then ((n + cn1, Some (E errors_Encode)), w4)
      else ((n + cn, None), w4))"

section \<open>decrypter.go\<close>

definition NewDecrypter :: "'a celo" where
  "NewDecrypter =
     \<lparr>metadata = None, blockSize = Aes256BlockSize, saltSize = SaltSize,
      nonceSize = NonceSize, salt = None, nonce = None, ciphertext = None, cipher = None,
      ext = Extension, preserveKey = False, initialized = False\<rparr>"

definition initCipher :: "'a crypto \<Rightarrow> 'a celo \<Rightarrow> bytes \<Rightarrow> error option \<times> 'a celo" where
  "initCipher L d secretPhrase =
     (case NewCipher L (blockSize d) (nonceSize d)
             (GenerateKey L secretPhrase (salt d) (uint32 (blockSize d))) of
        Inl err \<Rightarrow> (Some err, d)
      | Inr c \<Rightarrow> (None, d\<lparr>cipher := Some c\<rparr>))"

definition Decrypter_Decrypt ::
  "'a crypto \<Rightarrow> 'a celo \<Rightarrow> bytes \<Rightarrow> (bytes option \<times> error option) \<times> 'a celo" where
  "Decrypter_Decrypt L d secretPhrase =
     (if \<not> IsReady d then ((None, Some (E errors_NotReady)), d)
      else case (if cipher d = None then initCipher L d secretPhrase else (None, d)) of
        (Some err, d) \<Rightarrow> ((None, Some err), d)
      | (None, d) \<Rightarrow>
        (case cipher d of
           None \<Rightarrow> ((None, Some Panic), d)
         | Some c \<Rightarrow>
           (case Cipher_Decrypt L c (nonce d) (ciphertext d) of
              (_, Some err) \<Rightarrow> ((None, Some err), d)
            | (plaintext, None) \<Rightarrow> ((plaintext, None), d))))"

text \<open>
  \<open>Decrypter.Read\<close>. Here \<open>metadata, n, err := DecodeMetadata(r)\<close> assigns the result
  parameter \<open>n\<close>; the two \<open>if x, err := io.ReadFull(...)\<close> again declare their own
  \<open>sn1\<close> and \<open>nn1\<close>, and the additions read the outer \<open>sn\<close> and \<open>nn\<close>, which stay 0.
  The nonce buffer is stored in the Decrypter before it is filled.
\<close>

definition Decrypter_Read ::
  "'a celo \<Rightarrow> reader \<Rightarrow> (nat \<times> error option) \<times> 'a celo \<times> reader" where
  "Decrypter_Read d r =
     (let sn = (0::nat); nn = (0::nat) in
      case DecodeMetadata r of ((m, n, err), r1) \<Rightarrow>
      if err \<noteq> None then ((n, err), d, r1)
      else let d = d\<lparr>metadata := m\<rparr> in
      case ReadFull r1 (saltSize d) of (salt1, sn1, err1, r2) \<Rightarrow>
      if err1 then ((n + sn1, Some (E errors_Salt)), d, r2)
      else let n = n + sn;
               d = (if salt d = None \<or> salt1 \<noteq> slice (salt d)
                    then d\<lparr>salt := Some salt1, cipher := None\<rparr> else d)
      in case ReadFull r2 (nonceSize d) of (nonce1, nn1, err2, r3) \<Rightarrow>
      let d = d\<lparr>nonce := Some nonce1\<rparr> in
      if err2 then ((n + nn1, Some (E errors_Nonce)), d, r3)
      else let n = n + nn in
      case ReadAll r3 of (ct, err3, r4) \<Rightarrow>
      let d = d\<lparr>ciphertext := Some ct\<rparr>;
          n = n + length ct
      in if err3 then ((n, Some (E errors_Ciphertext)), d, r4)
      else ((n, None), d\<lparr>initialized := True\<rparr>, r4))"

section \<open>The two pipelines of the round trip\<close>

text \<open>
  What \<open>EncryptFile\<close> does between reading the source file and closing the target:
  \<open>Encrypt\<close> on a default Encrypter, then \<open>Write\<close> of the envelope, here into an
  empty buffer. The result is the envelope, or the first error.
\<close>

definition Encrypt_then_Write :: "'a crypto \<Rightarrow> reader \<Rightarrow> bytes \<Rightarrow> bytes \<Rightarrow> error + bytes" where
  "Encrypt_then_Write L rnd K P =
     (case Encrypter_Encrypt L NewEncrypter rnd K P of
        ((_, Some err), _, _) \<Rightarrow> Inl err
      | ((_, None), e, _) \<Rightarrow>
        (case Encrypter_Write buffer_Write e [] of
           ((_, Some err), _) \<Rightarrow> Inl err
         | ((_, None), envelope) \<Rightarrow> Inr envelope))"

text \<open>
  What \<open>DecryptFile\<close> does with the opened file: \<open>Read\<close> on a default Decrypter,
  then \<open>Decrypt\<close>. The result is the plaintext, or the first error.
\<close>

definition Read_then_Decrypt :: "'a crypto \<Rightarrow> bytes \<Rightarrow> bytes \<Rightarrow> error + bytes" where
  "Read_then_Decrypt L envelope K =
     (case Decrypter_Read NewDecrypter \<lparr>rdata = envelope, rfail = False\<rparr> of
        ((_, Some err), _, _) \<Rightarrow> Inl err
      | ((_, None), d, _) \<Rightarrow>
        (case Decrypter_Decrypt L d K of
           ((_, Some err), _) \<Rightarrow> Inl err
         | ((plaintext, None), _) \<Rightarrow> Inr (slice plaintext)))"

section \<open>A stand-in for the cryptographic libraries\<close>

text \<open>
  A library to run the model on concrete inputs. The derived key is the phrase
  followed by the salt, cut or zero-padded to the requested length; an AEAD is its key,
  accepted at the three AES key lengths; sealing appends the first 16 bytes of the
  key as the tag, and opening checks and removes that tag.
\<close>

definition toy :: "bytes crypto" where
  "toy =
     \<lparr>argon2_IDKey = (\<lambda>phrase s n. take n (phrase @ s @ replicate n 0)),
      aes_NewGCM = (\<lambda>key. if length key = 16 \<or> length key = 24 \<or> length key = 32
                          then Some key else None),
      aead_NonceSize = (\<lambda>a. 12),
      aead_Seal = (\<lambda>a n plaintext ad. plaintext @ take 16 a),
      aead_Open = (\<lambda>a n ct ad.
         if 16 \<le> length ct \<and> drop (length ct - 16) ct = take 16 a
         then Some (take (length ct - 16) ct) else None)\<rparr>"

text \<open>A random source that has nothing to give.\<close>

definition rnd_dry :: reader where
  "rnd_dry = \<lparr>rdata = [], rfail = False\<rparr>"

section \<open>Sample inputs\<close>

text \<open>
  A phrase, a wrong phrase and a plaintext; a random source that yields 32 bytes
  \<open>5A\<close> and 12 bytes \<open>A5\<close> and then runs dry, and what is left of it after the salt
  has been drawn.
\<close>

definition phrase0 :: bytes where "phrase0 = [0x70, 0x77]"

definition wrong0 :: bytes where "wrong0 = [0x6E, 0x6F]"

definition plain0 :: bytes where "plain0 = [0x68, 0x69]"

definition rnd44 :: reader where
  "rnd44 = \<lparr>rdata = replicate 32 0x5A @ replicate 12 0xA5, rfail = False\<rparr>"

definition rnd12 :: reader where
  "rnd12 = \<lparr>rdata = replicate 12 0xA5, rfail = False\<rparr>"

text \<open>
  The keys the stand-in library derives from the two phrases and the salt of 32 bytes
  \<open>5A\<close>, the sealed plaintext, and the envelope with that salt and the nonce of 12
  bytes \<open>A5\<close>; \<open>envelope1\<close> is the same envelope under another salt.
\<close>

definition key0 :: bytes where "key0 = [0x70, 0x77] @ replicate 30 0x5A"

definition wrongkey0 :: bytes where "wrongkey0 = [0x6E, 0x6F] @ replicate 30 0x5A"

definition sealed0 :: bytes where "sealed0 = [0x68, 0x69, 0x70, 0x77] @ replicate 14 0x5A"

definition envelope0 :: bytes where
  "envelope0 = Bytes newCurrentMetadata @ replicate 32 0x5A @ replicate 12 0xA5 @ sealed0"

definition envelope1 :: bytes where
  "envelope1 = Bytes newCurrentMetadata @ replicate 32 0x3C @ replicate 12 0xA5 @ sealed0"

text \<open>
  The default Encrypter after \<open>Init\<close> and after \<open>Encrypt\<close>, the default Decrypter
  after \<open>Read\<close> of \<open>envelope0\<close>, and that Decrypter once \<open>Decrypt\<close> has been called
  with the wrong phrase.
\<close>

definition initialized0 :: "bytes celo" where
  "initialized0 = NewEncrypter\<lparr>initialized := True, salt := Some (replicate 32 0x5A),
                                cipher := Some \<lparr>cblockSize = 32, aead = key0\<rparr>\<rparr>"

definition encrypted0 :: "bytes celo" where
  "encrypted0 = initialized0\<lparr>ciphertext := Some sealed0, nonce := Some (replicate 12 0xA5)\<rparr>"

definition loaded0 :: "bytes celo" where
  "loaded0 = NewDecrypter\<lparr>metadata := Some newCurrentMetadata, salt := Some (replicate 32 0x5A),
                           nonce := Some (replicate 12 0xA5), ciphertext := Some sealed0,
                           initialized := True\<rparr>"

definition poisoned0 :: "bytes celo" where
  "poisoned0 = loaded0\<lparr>cipher := Some \<lparr>cblockSize = 32, aead = wrongkey0\<rparr>\<rparr>"

section \<open>Readers and the header\<close>

lemma ReadFull_enough:
  "n \<le> length (rdata r) \<Longrightarrow>
     ReadFull r n = (take n (rdata r), n, False, r\<lparr>rdata := drop n (rdata r)\<rparr>)"
  by (simp add: ReadFull_def)

lemma ReadFull_short:
  "length (rdata r) < n \<Longrightarrow>
     ReadFull r n = (rdata r @ replicate (n - length (rdata r)) 0, length (rdata r), True,
                     r\<lparr>rdata := []\<rparr>)"
  by (simp add: ReadFull_def)

lemma Bytes_newCurrentMetadata:
  "Bytes newCurrentMetadata =
     [0x0A, 0x1A, 0x43, 0x45, 0x4C, 0x4F, 0x0A, 0x1A, 1, 32, 32, 12] @ replicate 20 0"
  by (simp add: Bytes_def newCurrentMetadata_def signatureHeader_def SignatureSize_def
      versionIndex_def saltSizeIndex_def blockSizeIndex_def nonceSizeIndex_def
      Version_def SaltSize_def Aes256BlockSize_def NonceSize_def Let_def upt_rec
      numeral_eq_Suc)

lemma DecodeMetadata_enough:
  "32 \<le> length (rdata r) \<Longrightarrow>
     DecodeMetadata r =
       (case ValidateMetadata (take 8 (rdata r)) (take 4 (drop 8 (rdata r)))
               (take 20 (drop 12 (rdata r))) of
          Some err \<Rightarrow> ((None, 0, Some err), r\<lparr>rdata := drop 32 (rdata r)\<rparr>)
        | None \<Rightarrow>
            ((Some \<lparr>signature = take 8 (rdata r), vsbn = take 4 (drop 8 (rdata r)),
                    reserved = take 20 (drop 12 (rdata r))\<rparr>, 0, None),
             r\<lparr>rdata := drop 32 (rdata r)\<rparr>))"
proof -
  assume len: "32 \<le> length (rdata r)"
  have r1: "ReadFull r 8 = (take 8 (rdata r), 8, False, r\<lparr>rdata := drop 8 (rdata r)\<rparr>)"
    using len by (simp add: ReadFull_enough)
  have r2: "ReadFull (r\<lparr>rdata := drop 8 (rdata r)\<rparr>) 4 =
              (take 4 (drop 8 (rdata r)), 4, False, r\<lparr>rdata := drop 12 (rdata r)\<rparr>)"
    using len by (simp add: ReadFull_enough)
  have r3: "ReadFull (r\<lparr>rdata := drop 12 (rdata r)\<rparr>) 20 =
              (take 20 (drop 12 (rdata r)), 20, False, r\<lparr>rdata := drop 32 (rdata r)\<rparr>)"
    using len by (simp add: ReadFull_enough)
  show ?thesis
    by (simp add: DecodeMetadata_def r1 r2 r3 Let_def split: option.splits)
qed

lemma DecodeMetadata_short:
  "length (rdata r) < 32 \<Longrightarrow>
     fst (fst (DecodeMetadata r)) = None \<and>
     snd (snd (fst (DecodeMetadata r))) = Some (E errors_Metadata)"
proof -
  assume len: "length (rdata r) < 32"
  consider "length (rdata r) < 8" | "8 \<le> length (rdata r)" "length (rdata r) < 12"
    | "12 \<le> length (rdata r)" by linarith
  then show ?thesis
  proof cases
    case 1
    then show ?thesis by (simp add: DecodeMetadata_def ReadFull_short Let_def)
  next
    case 2
    then have "ReadFull r 8 = (take 8 (rdata r), 8, False, r\<lparr>rdata := drop 8 (rdata r)\<rparr>)"
      and "ReadFull (r\<lparr>rdata := drop 8 (rdata r)\<rparr>) 4 =
             (drop 8 (rdata r) @ replicate (4 - length (drop 8 (rdata r))) 0,
              length (drop 8 (rdata r)), True, r\<lparr>rdata := []\<rparr>)"
      by (simp_all add: ReadFull_enough ReadFull_short)
    then show ?thesis by (simp add: DecodeMetadata_def Let_def)
  next
    case 3
    with len have "ReadFull r 8 = (take 8 (rdata r), 8, False, r\<lparr>rdata := drop 8 (rdata r)\<rparr>)"
      and "ReadFull (r\<lparr>rdata := drop 8 (rdata r)\<rparr>) 4 =
              (take 4 (drop 8 (rdata r)), 4, False, r\<lparr>rdata := drop 12 (rdata r)\<rparr>)"
      and "ReadFull (r\<lparr>rdata := drop 12 (rdata r)\<rparr>) 20 =
             (drop 12 (rdata r) @ replicate (20 - length (drop 12 (rdata r))) 0,
              length (drop 12 (rdata r)), True, r\<lparr>rdata := []\<rparr>)"
      by (simp_all add: ReadFull_enough ReadFull_short)
    then show ?thesis by (simp add: DecodeMetadata_def Let_def)
  qed
qed

lemma Validate_current:
  "ValidateMetadata signatureHeader [1, 32, 32, 12] res = None"
  by (simp add: ValidateMetadata_def versionIndex_def blockSizeIndex_def nonceSizeIndex_def
      MinVersion_def MaxVersion_def)

lemma DecodeMetadata_current:
  "DecodeMetadata \<lparr>rdata = Bytes newCurrentMetadata @ rest, rfail = f\<rparr> =
     ((Some newCurrentMetadata, 0, None), \<lparr>rdata = rest, rfail = f\<rparr>)"
  unfolding Bytes_newCurrentMetadata
  by (simp add: DecodeMetadata_enough Validate_current [unfolded signatureHeader_def]
      signatureHeader_def newCurrentMetadata_def Version_def SaltSize_def
      Aes256BlockSize_def NonceSize_def)

text \<open>
  Claim C3. \<open>DecodeMetadata\<close> on a source that starts with the 32 bytes of a valid
  header succeeds and consumes exactly those 32 bytes (the byte \<open>FF\<close> that follows is
  still in the reader), but the count it returns is 0, not 32. On a source of 31 bytes
  it fails with a \<open>Metadata\<close> error.
\<close>

theorem DecodeMetadata_count_is_zero:
  "DecodeMetadata \<lparr>rdata = Bytes newCurrentMetadata @ [0xFF], rfail = False\<rparr> =
     ((Some newCurrentMetadata, 0, None), \<lparr>rdata = [0xFF], rfail = False\<rparr>) \<and>
   length (Bytes newCurrentMetadata) = 32 \<and>
   snd (snd (fst (DecodeMetadata \<lparr>rdata = take 31 (Bytes newCurrentMetadata), rfail = False\<rparr>)))
     = Some (E errors_Metadata)"
proof -
  have short: "snd (snd (fst (DecodeMetadata \<lparr>rdata = take 31 (Bytes newCurrentMetadata), rfail = False\<rparr>)))
     = Some (E errors_Metadata)"
    using DecodeMetadata_short [of "\<lparr>rdata = take 31 (Bytes newCurrentMetadata), rfail = False\<rparr>"]
    by (simp add: Bytes_newCurrentMetadata)
  have len: "length (Bytes newCurrentMetadata) = 32"
    by (simp add: Bytes_newCurrentMetadata)
  from DecodeMetadata_current [of "[0xFF]" False] len short show ?thesis by simp
qed

text \<open>
  Claim C4. A header with the right signature, version 1 and the block-size byte 24
  is rejected by \<open>ValidateMetadata\<close>, and so by \<open>DecodeMetadata\<close>, with an error of
  kind \<open>NonceSize\<close>, not of kind \<open>BlockSize\<close>.
\<close>

theorem ValidateMetadata_block_size_kind:
  "ValidateMetadata signatureHeader [1, 32, 24, 12] (replicate 20 0) = Some (E errors_NonceSize) \<and>
   DecodeMetadata \<lparr>rdata = signatureHeader @ [1, 32, 24, 12] @ replicate 20 0, rfail = False\<rparr> =
     ((None, 0, Some (E errors_NonceSize)), \<lparr>rdata = [], rfail = False\<rparr>)"
proof -
  have v: "ValidateMetadata signatureHeader [1, 32, 24, 12] (replicate 20 0)
             = Some (E errors_NonceSize)"
    by (simp add: ValidateMetadata_def versionIndex_def blockSizeIndex_def nonceSizeIndex_def
        MinVersion_def MaxVersion_def)
  have "DecodeMetadata \<lparr>rdata = signatureHeader @ [1, 32, 24, 12] @ replicate 20 0, rfail = False\<rparr> =
     ((None, 0, Some (E errors_NonceSize)), \<lparr>rdata = [], rfail = False\<rparr>)"
    using v by (simp add: DecodeMetadata_enough signatureHeader_def)
  with v show ?thesis by simp
qed

section \<open>The stand-in library on the samples\<close>

lemma uint32_32: "uint32 32 = 32"
  by (simp add: uint32_def)

lemma toy_fields:
  "argon2_IDKey toy phrase s n = take n (phrase @ s @ replicate n 0)"
  "aes_NewGCM toy key =
     (if length key = 16 \<or> length key = 24 \<or> length key = 32 then Some key else None)"
  "aead_NonceSize toy a = 12"
  "aead_Seal toy a nonce1 plaintext ad = plaintext @ take 16 a"
  "aead_Open toy a nonce1 ct ad =
     (if 16 \<le> length ct \<and> drop (length ct - 16) ct = take 16 a
      then Some (take (length ct - 16) ct) else None)"
  by (simp_all add: toy_def)

lemma toy_key_len: "length (argon2_IDKey toy phrase s n) = n"
  by (simp add: toy_fields)

lemma toy_key_ok: "length key = 32 \<Longrightarrow> aes_NewGCM toy key \<noteq> None"
  by (simp add: toy_fields)

lemma toy_nonce_size: "aes_NewGCM toy key = Some a \<Longrightarrow> aead_NonceSize toy a = 12"
  by (simp add: toy_fields)

lemma toy_seal_open:
  "aes_NewGCM toy key = Some a \<Longrightarrow> length n = 12 \<Longrightarrow>
     aead_Open toy a n (aead_Seal toy a n plaintext []) [] = Some plaintext"
  by (auto simp: toy_fields split: if_splits)

lemma toy_key0: "argon2_IDKey toy phrase0 (replicate 32 0x5A) 32 = key0"
  by (simp add: toy_fields phrase0_def key0_def)

lemma toy_wrongkey0: "argon2_IDKey toy wrong0 (replicate 32 0x5A) 32 = wrongkey0"
  by (simp add: toy_fields wrong0_def wrongkey0_def)

lemma toy_gcm_key0: "aes_NewGCM toy key0 = Some key0"
  by (simp add: toy_fields key0_def)

lemma toy_gcm_wrongkey0: "aes_NewGCM toy wrongkey0 = Some wrongkey0"
  by (simp add: toy_fields wrongkey0_def)

lemma toy_seal0: "aead_Seal toy key0 n plain0 [] = sealed0"
  by (simp add: toy_fields key0_def plain0_def sealed0_def)

lemma toy_open0: "aead_Open toy key0 n sealed0 [] = Some plain0"
  by (simp add: toy_fields key0_def plain0_def sealed0_def)

lemma toy_open_wrong0: "aead_Open toy wrongkey0 n sealed0 [] = None"
  by (simp add: toy_fields wrongkey0_def sealed0_def)

section \<open>Encrypter\<close>

lemma NewEncrypter_fields:
  "blockSize NewEncrypter = 32" "saltSize NewEncrypter = 32" "nonceSize NewEncrypter = 12"
  "salt NewEncrypter = None" "nonce NewEncrypter = None" "ciphertext NewEncrypter = None"
  "cipher NewEncrypter = None" "initialized NewEncrypter = False"
  "preserveKey NewEncrypter = False" "metadata NewEncrypter = Some newCurrentMetadata"
  by (simp_all add: NewEncrypter_def Aes256BlockSize_def SaltSize_def NonceSize_def)

lemma NewSalt_dry: "0 < n \<Longrightarrow> NewSalt rnd_dry n = ((None, 0, Some (E errors_Salt)), rnd_dry)"
  by (simp add: NewSalt_def ReadFull_def rnd_dry_def)

lemma Init_fresh:
  assumes "\<not> (initialized e \<and> preserveKey e)"
    and "saltSize e \<le> length (rdata rnd)"
    and "aes_NewGCM L (argon2_IDKey L K (take (saltSize e) (rdata rnd)) (uint32 (blockSize e))) = Some a"
  shows "Encrypter_Init L e rnd K =
           (None,
            e\<lparr>initialized := True, salt := Some (take (saltSize e) (rdata rnd)),
              cipher := Some \<lparr>cblockSize = blockSize e, aead = a\<rparr>\<rparr>,
            rnd\<lparr>rdata := drop (saltSize e) (rdata rnd)\<rparr>)"
proof -
  have "NewSalt rnd (saltSize e) =
          ((Some (take (saltSize e) (rdata rnd)), saltSize e, None),
           rnd\<lparr>rdata := drop (saltSize e) (rdata rnd)\<rparr>)"
    using assms(2) by (simp add: NewSalt_def ReadFull_enough)
  with assms(1,3) show ?thesis
    by (auto simp: Encrypter_Init_def Let_def NewCipher_def GenerateKey_def slice_def)
qed

lemma Init_success_initialized:
  "Encrypter_Init L e rnd K = (None, e1, rnd1) \<Longrightarrow>
     initialized e1 \<and> preserveKey e1 = preserveKey e"
  by (auto simp: Encrypter_Init_def Let_def split: if_splits prod.splits sum.splits)

lemma Init_rnd44: "Encrypter_Init toy NewEncrypter rnd44 phrase0 = (None, initialized0, rnd12)"
  using Init_fresh [of "NewEncrypter :: bytes celo" rnd44 toy phrase0 key0]
  by (simp add: NewEncrypter_fields rnd44_def rnd12_def uint32_32 toy_key0 toy_gcm_key0
      initialized0_def)

lemma Encrypt_rnd44:
  "Encrypter_Encrypt toy NewEncrypter rnd44 phrase0 plain0 =
     ((Some sealed0, None), encrypted0, rnd_dry)"
proof -
  have "Cipher_Encrypt toy \<lparr>cblockSize = 32, aead = key0\<rparr> rnd12 plain0 None =
          ((Some (replicate 12 0xA5), Some sealed0, None), rnd_dry)"
    by (simp add: Cipher_Encrypt_def toy_fields(3) ReadFull_def rnd12_def rnd_dry_def toy_seal0
        slice_def)
  then show ?thesis
    by (simp add: Encrypter_Encrypt_def Init_rnd44 initialized0_def encrypted0_def Let_def)
qed

lemma Write_to_buffer:
  "initialized e \<Longrightarrow> metadata e = Some m \<Longrightarrow>
     Encrypter_Write buffer_Write e w =
       ((0, None), w @ Bytes m @ slice (salt e) @ slice (nonce e) @ slice (ciphertext e))"
  by (simp add: Encrypter_Write_def buffer_Write_def IsReady_def Let_def)

text \<open>
  Claim C6. When the random source cannot fill the salt, \<open>Init\<close> on a default
  Encrypter returns the \<open>Salt\<close> error, yet the Encrypter it leaves behind is marked
  initialized: \<open>IsReady\<close> is true.
\<close>

theorem Init_failure_leaves_ready:
  "Encrypter_Init L NewEncrypter rnd_dry K =
     (Some (E errors_Salt), NewEncrypter\<lparr>initialized := True\<rparr>, rnd_dry) \<and>
   IsReady (fst (snd (Encrypter_Init L NewEncrypter rnd_dry K))) = True"
proof -
  have "Encrypter_Init L NewEncrypter rnd_dry K =
     (Some (E errors_Salt), NewEncrypter\<lparr>initialized := True\<rparr>, rnd_dry)"
    by (simp add: Encrypter_Init_def NewEncrypter_def NewSalt_dry SaltSize_def Let_def)
  then show ?thesis by (simp add: IsReady_def)
qed

text \<open>
  Claim C7. With the preserve-key option set, once \<open>Init\<close> has returned without
  error, a further \<open>Init\<close> (with the same or any other phrase) returns no error and
  leaves the whole Encrypter, salt and cached cipher included, and the random source
  as they were.
\<close>

theorem Init_preserves_key:
  assumes "preserveKey e" and "Encrypter_Init L e rnd K = (None, e1, rnd1)"
  shows "Encrypter_Init L e1 rnd1 K' = (None, e1, rnd1)"
proof -
  from assms have "initialized e1 \<and> preserveKey e1"
    using Init_success_initialized by blast
  then show ?thesis by (simp add: Encrypter_Init_def)
qed

theorem Init_preserves_key_witness:
  "preserveKey (NewEncrypter\<lparr>preserveKey := True\<rparr> :: bytes celo) \<and>
   Encrypter_Init toy (NewEncrypter\<lparr>preserveKey := True\<rparr>) rnd44 phrase0 =
     (None, initialized0\<lparr>preserveKey := True\<rparr>, rnd12) \<and>
   Encrypter_Init toy (initialized0\<lparr>preserveKey := True\<rparr>) rnd12 phrase0 =
     (None, initialized0\<lparr>preserveKey := True\<rparr>, rnd12) \<and>
   salt (initialized0\<lparr>preserveKey := True\<rparr>) = Some (replicate 32 0x5A)"
proof -
  have p: "preserveKey (NewEncrypter\<lparr>preserveKey := True\<rparr> :: bytes celo)" by simp
  have first: "Encrypter_Init toy (NewEncrypter\<lparr>preserveKey := True\<rparr>) rnd44 phrase0 =
     (None, initialized0\<lparr>preserveKey := True\<rparr>, rnd12)"
    using Init_fresh [of "NewEncrypter\<lparr>preserveKey := True\<rparr> :: bytes celo" rnd44 toy phrase0 key0]
    by (simp add: NewEncrypter_fields rnd44_def rnd12_def uint32_32 toy_key0 toy_gcm_key0
        initialized0_def)
  note second = Init_preserves_key [OF p first, of phrase0]
  have s: "salt (initialized0\<lparr>preserveKey := True\<rparr>) = Some (replicate 32 0x5A)"
    by (simp add: initialized0_def)
  from p first second s show ?thesis by simp
qed

text \<open>
  Claim C2. After \<open>Encrypt\<close> on a default Encrypter, \<open>Write\<close> into an empty buffer
  writes metadata, salt, nonce and ciphertext in this order, 94 bytes in all, and
  returns the count 0, where 32 + salt size + nonce size + ciphertext length is 94.
\<close>

theorem Write_returns_zero:
  "Encrypter_Encrypt toy NewEncrypter rnd44 phrase0 plain0 =
     ((Some sealed0, None), encrypted0, rnd_dry) \<and>
   Encrypter_Write buffer_Write encrypted0 [] = ((0, None), envelope0) \<and>
   length envelope0 = 94 \<and>
   32 + saltSize encrypted0 + nonceSize encrypted0 + length (slice (ciphertext encrypted0)) = 94"
proof -
  have w: "Encrypter_Write buffer_Write encrypted0 [] = ((0, None), envelope0)"
    by (simp add: Write_to_buffer [where m = newCurrentMetadata] encrypted0_def initialized0_def
        NewEncrypter_fields slice_def envelope0_def)
  have l: "length envelope0 = 94"
    by (simp add: envelope0_def Bytes_newCurrentMetadata sealed0_def)
  have c: "32 + saltSize encrypted0 + nonceSize encrypted0 + length (slice (ciphertext encrypted0)) = 94"
    by (simp add: encrypted0_def initialized0_def NewEncrypter_fields slice_def sealed0_def)
  from Encrypt_rnd44 w l c show ?thesis by simp
qed

lemma Write_not_ready:
  "\<not> IsReady e \<Longrightarrow> Encrypter_Write wr e w = ((0, Some (E errors_NotReady)), w)"
  by (simp add: Encrypter_Write_def)

lemma Read_without_nonce:
  "Decrypter_Read NewDecrypter
       \<lparr>rdata = Bytes newCurrentMetadata @ replicate 32 0x5A, rfail = False\<rparr> =
     ((0, Some (E errors_Nonce)),
      NewDecrypter\<lparr>metadata := Some newCurrentMetadata, salt := Some (replicate 32 0x5A),
                    nonce := Some (replicate 12 0)\<rparr>,
      \<lparr>rdata = [], rfail = False\<rparr>)"
proof -
  have rs: "ReadFull \<lparr>rdata = replicate 32 0x5A, rfail = False\<rparr> 32 =
              (replicate 32 0x5A, 32, False, \<lparr>rdata = [], rfail = False\<rparr>)"
    by (simp add: ReadFull_enough)
  have rn: "ReadFull \<lparr>rdata = [], rfail = False\<rparr> 12 =
              (replicate 12 0, 0, True, \<lparr>rdata = [], rfail = False\<rparr>)"
    by (simp add: ReadFull_short)
  show ?thesis
    by (simp add: Decrypter_Read_def DecodeMetadata_current NewDecrypter_def SaltSize_def
        NonceSize_def rs rn Let_def)
qed

text \<open>
  Claim C5. \<open>Write\<close> on an Encrypter that was never initialized fails with a
  \<open>NotReady\<close> error and writes nothing. After \<open>Init\<close> alone, though, the Encrypter
  is marked initialized while its nonce and ciphertext are still nil, and \<open>Write\<close>
  does not fail: it returns no error and writes the metadata and the salt only, 64
  bytes that a default Decrypter then rejects with a \<open>Nonce\<close> error.
\<close>

theorem Write_accepts_nil_nonce:
  "Encrypter_Init toy NewEncrypter rnd44 phrase0 = (None, initialized0, rnd12) \<and>
   IsReady initialized0 = True \<and>
   nonce initialized0 = None \<and> ciphertext initialized0 = None \<and>
   Encrypter_Write buffer_Write initialized0 [] =
     ((0, None), Bytes newCurrentMetadata @ replicate 32 0x5A) \<and>
   fst (Decrypter_Read (NewDecrypter :: bytes celo)
          \<lparr>rdata = Bytes newCurrentMetadata @ replicate 32 0x5A, rfail = False\<rparr>) =
     (0, Some (E errors_Nonce)) \<and>
   Encrypter_Write buffer_Write (NewEncrypter :: bytes celo) [] =
     ((0, Some (E errors_NotReady)), [])"
proof -
  have ready: "IsReady initialized0 = True"
    by (simp add: IsReady_def initialized0_def)
  have nils: "nonce initialized0 = None \<and> ciphertext initialized0 = None"
    by (simp add: initialized0_def NewEncrypter_fields)
  have wrote: "Encrypter_Write buffer_Write initialized0 [] =
     ((0, None), Bytes newCurrentMetadata @ replicate 32 0x5A)"
    by (simp add: Write_to_buffer [where m = newCurrentMetadata] initialized0_def
        NewEncrypter_fields slice_def)
  have rejected: "fst (Decrypter_Read (NewDecrypter :: bytes celo)
          \<lparr>rdata = Bytes newCurrentMetadata @ replicate 32 0x5A, rfail = False\<rparr>) =
     (0, Some (E errors_Nonce))"
    by (simp add: Read_without_nonce)
  have fresh: "Encrypter_Write buffer_Write (NewEncrypter :: bytes celo) [] =
     ((0, Some (E errors_NotReady)), [])"
    by (simp add: Write_not_ready IsReady_def NewEncrypter_fields)
  from Init_rnd44 ready nils wrote rejected fresh show ?thesis by simp
qed

section \<open>Decrypter\<close>

lemma NewDecrypter_fields:
  "blockSize NewDecrypter = 32" "saltSize NewDecrypter = 32" "nonceSize NewDecrypter = 12"
  "salt NewDecrypter = None" "cipher NewDecrypter = None" "initialized NewDecrypter = False"
  by (simp_all add: NewDecrypter_def Aes256BlockSize_def SaltSize_def NonceSize_def)

lemma Cipher_Decrypt_shape:
  "(case Cipher_Decrypt L c n ct of
      (_, Some err) \<Rightarrow> ((None, Some err), d)
    | (plaintext, None) \<Rightarrow> ((plaintext, None), d)) = (Cipher_Decrypt L c n ct, d)"
  by (simp add: Cipher_Decrypt_def split: option.splits)

lemma Decrypt_not_ready:
  "\<not> initialized d \<Longrightarrow> Decrypter_Decrypt L d K = ((None, Some (E errors_NotReady)), d)"
  by (simp add: Decrypter_Decrypt_def IsReady_def)

lemma Decrypt_cached:
  "initialized d \<Longrightarrow> cipher d = Some c \<Longrightarrow>
     Decrypter_Decrypt L d K = (Cipher_Decrypt L c (nonce d) (ciphertext d), d)"
  by (simp add: Decrypter_Decrypt_def IsReady_def Cipher_Decrypt_shape)

lemma Decrypt_derive:
  "initialized d \<Longrightarrow> cipher d = None \<Longrightarrow>
   aes_NewGCM L (argon2_IDKey L K (slice (salt d)) (uint32 (blockSize d))) = Some a \<Longrightarrow>
     Decrypter_Decrypt L d K =
       (Cipher_Decrypt L \<lparr>cblockSize = blockSize d, aead = a\<rparr> (nonce d) (ciphertext d),
        d\<lparr>cipher := Some \<lparr>cblockSize = blockSize d, aead = a\<rparr>\<rparr>)"
  by (simp add: Decrypter_Decrypt_def IsReady_def initCipher_def NewCipher_def GenerateKey_def
      Cipher_Decrypt_shape)

lemma Decrypt_no_cipher:
  "initialized d \<Longrightarrow> cipher d = None \<Longrightarrow>
   aes_NewGCM L (argon2_IDKey L K (slice (salt d)) (uint32 (blockSize d))) = None \<Longrightarrow>
     Decrypter_Decrypt L d K = ((None, Some (E errors_Cipher)), d)"
  by (simp add: Decrypter_Decrypt_def IsReady_def initCipher_def NewCipher_def GenerateKey_def)

lemma Read_envelope:
  assumes s: "saltSize d = length s" and n: "nonceSize d = length n"
  shows "Decrypter_Read d \<lparr>rdata = Bytes newCurrentMetadata @ s @ n @ ct, rfail = False\<rparr> =
           ((length ct, None),
            (if salt d = None \<or> s \<noteq> slice (salt d)
             then d\<lparr>metadata := Some newCurrentMetadata, salt := Some s, cipher := None\<rparr>
             else d\<lparr>metadata := Some newCurrentMetadata\<rparr>)
              \<lparr>nonce := Some n, ciphertext := Some ct, initialized := True\<rparr>,
            \<lparr>rdata = [], rfail = False\<rparr>)"
proof -
  have rs: "ReadFull \<lparr>rdata = s @ n @ ct, rfail = False\<rparr> (length s) =
              (s, length s, False, \<lparr>rdata = n @ ct, rfail = False\<rparr>)"
    by (simp add: ReadFull_enough)
  have rn: "ReadFull \<lparr>rdata = n @ ct, rfail = False\<rparr> (length n) =
              (n, length n, False, \<lparr>rdata = ct, rfail = False\<rparr>)"
    by (simp add: ReadFull_enough)
  show ?thesis
    by (simp add: Decrypter_Read_def DecodeMetadata_current s n rs rn ReadAll_def Let_def)
qed

lemma Read_default:
  assumes s: "length s = 32" and n: "length n = 12"
  shows "Decrypter_Read NewDecrypter \<lparr>rdata = Bytes newCurrentMetadata @ s @ n @ ct, rfail = False\<rparr> =
           ((length ct, None),
            NewDecrypter\<lparr>metadata := Some newCurrentMetadata, salt := Some s, nonce := Some n,
                          ciphertext := Some ct, initialized := True\<rparr>,
            \<lparr>rdata = [], rfail = False\<rparr>)"
  using Read_envelope [of NewDecrypter s n ct] s n
  by (simp add: NewDecrypter_def Aes256BlockSize_def SaltSize_def NonceSize_def)

lemma Read_cipher:
  "Decrypter_Read d r = (res, d2, r2) \<Longrightarrow>
     cipher d2 = (if salt d2 = salt d then cipher d else None)"
  by (auto simp: Decrypter_Read_def Let_def slice_def split: prod.splits if_splits option.splits)

lemma loaded0_fields:
  "initialized loaded0" "cipher loaded0 = None" "salt loaded0 = Some (replicate 32 0x5A)"
  "blockSize loaded0 = 32" "nonce loaded0 = Some (replicate 12 0xA5)"
  "ciphertext loaded0 = Some sealed0" "saltSize loaded0 = 32" "nonceSize loaded0 = 12"
  by (simp_all add: loaded0_def NewDecrypter_fields)

lemma Read_envelope0:
  "Decrypter_Read NewDecrypter \<lparr>rdata = envelope0, rfail = False\<rparr> =
     ((length sealed0, None), loaded0, \<lparr>rdata = [], rfail = False\<rparr>)"
  unfolding envelope0_def
  using Read_envelope [of "NewDecrypter :: bytes celo" "replicate 32 0x5A" "replicate 12 0xA5" sealed0]
  by (simp add: NewDecrypter_fields loaded0_def)

lemma Decrypt_loaded0_wrong:
  "Decrypter_Decrypt toy loaded0 wrong0 = ((None, Some (E errors_Decrypt)), poisoned0)"
  using Decrypt_derive [of loaded0 toy wrong0 wrongkey0]
  by (simp add: loaded0_fields slice_def uint32_32 toy_wrongkey0 toy_gcm_wrongkey0
      Cipher_Decrypt_def toy_fields(3) toy_open_wrong0 poisoned0_def)

lemma Decrypt_loaded0_right:
  "Decrypter_Decrypt toy loaded0 phrase0 =
     ((Some plain0, None), loaded0\<lparr>cipher := Some \<lparr>cblockSize = 32, aead = key0\<rparr>\<rparr>)"
  using Decrypt_derive [of loaded0 toy phrase0 key0]
  by (simp add: loaded0_fields slice_def uint32_32 toy_key0 toy_gcm_key0
      Cipher_Decrypt_def toy_fields(3) toy_open0)

text \<open>
  Claim C10. With a cached cipher, \<open>Decrypt\<close> returns the same result for any two
  phrases. If a \<open>Decrypt\<close> call has failed and left a cipher cached, every later
  \<open>Decrypt\<close>, whatever the phrase, fails with the same error and leaves the Decrypter
  as it is. The cache is cleared by \<open>Wipe\<close>, and by \<open>Read\<close> exactly when \<open>Read\<close>
  replaces the salt.
\<close>

theorem Decrypt_cached_cipher_ignores_phrase:
  "(cipher d \<noteq> None \<longrightarrow> Decrypter_Decrypt L d p1 = Decrypter_Decrypt L d p2) \<and>
   (Decrypter_Decrypt L d pw = ((None, Some err), d') \<and> cipher d' \<noteq> None \<longrightarrow>
      Decrypter_Decrypt L d' p = ((None, Some err), d')) \<and>
   cipher (Wipe d') = None \<and>
   (Decrypter_Read d' r = (res, d2, r2) \<longrightarrow>
      cipher d2 = (if salt d2 = salt d' then cipher d' else None))"
proof -
  have same: "Decrypter_Decrypt L d p1 = Decrypter_Decrypt L d p2" if "cipher d \<noteq> None"
  proof (cases "initialized d")
    case True
    with that show ?thesis by (auto simp: Decrypt_cached)
  next
    case False
    then show ?thesis by (simp add: Decrypt_not_ready)
  qed
  have stuck: "Decrypter_Decrypt L d' p = ((None, Some err), d')"
    if run: "Decrypter_Decrypt L d pw = ((None, Some err), d')" and cached: "cipher d' \<noteq> None"
  proof (cases "initialized d")
    case False
    with run show ?thesis by (auto simp: Decrypt_not_ready)
  next
    case True
    show ?thesis
    proof (cases "cipher d")
      case (Some c)
      with True run have "(Cipher_Decrypt L c (nonce d) (ciphertext d), d) = ((None, Some err), d')"
        by (auto simp: Decrypt_cached)
      then have "d' = d" and "Cipher_Decrypt L c (nonce d) (ciphertext d) = (None, Some err)"
        by auto
      with True Some show ?thesis by (simp add: Decrypt_cached)
    next
      case None
      show ?thesis
      proof (cases "aes_NewGCM L (argon2_IDKey L pw (slice (salt d)) (uint32 (blockSize d)))")
        case nogcm: None
        with True None run have "d' = d" by (simp add: Decrypt_no_cipher)
        with None cached show ?thesis by simp
      next
        case (Some a)
        with True None run
        have "(Cipher_Decrypt L \<lparr>cblockSize = blockSize d, aead = a\<rparr> (nonce d) (ciphertext d),
               d\<lparr>cipher := Some \<lparr>cblockSize = blockSize d, aead = a\<rparr>\<rparr>) = ((None, Some err), d')"
          by (auto simp: Decrypt_derive)
        then have d': "d' = d\<lparr>cipher := Some \<lparr>cblockSize = blockSize d, aead = a\<rparr>\<rparr>"
          and res: "Cipher_Decrypt L \<lparr>cblockSize = blockSize d, aead = a\<rparr> (nonce d) (ciphertext d)
                      = (None, Some err)"
          by auto
        from True have "initialized d'" by (simp add: d')
        moreover have "cipher d' = Some \<lparr>cblockSize = blockSize d, aead = a\<rparr>" by (simp add: d')
        ultimately have "Decrypter_Decrypt L d' p =
            (Cipher_Decrypt L \<lparr>cblockSize = blockSize d, aead = a\<rparr> (nonce d') (ciphertext d'), d')"
          by (rule Decrypt_cached)
        with res show ?thesis by (simp add: d')
      qed
    qed
  qed
  have wiped: "cipher (Wipe d') = None" by (simp add: Wipe_def)
  from same stuck wiped Read_cipher show ?thesis by blast
qed

theorem Decrypt_cached_cipher_witness:
  "Decrypter_Read NewDecrypter \<lparr>rdata = envelope0, rfail = False\<rparr> =
     ((length sealed0, None), loaded0, \<lparr>rdata = [], rfail = False\<rparr>) \<and>
   Decrypter_Decrypt toy loaded0 phrase0 =
     ((Some plain0, None), loaded0\<lparr>cipher := Some \<lparr>cblockSize = 32, aead = key0\<rparr>\<rparr>) \<and>
   Decrypter_Decrypt toy loaded0 wrong0 = ((None, Some (E errors_Decrypt)), poisoned0) \<and>
   cipher poisoned0 \<noteq> None \<and>
   Decrypter_Decrypt toy poisoned0 phrase0 = ((None, Some (E errors_Decrypt)), poisoned0) \<and>
   Decrypter_Decrypt toy poisoned0 wrong0 = Decrypter_Decrypt toy poisoned0 phrase0 \<and>
   cipher (Wipe poisoned0) = None \<and>
   cipher (fst (snd (Decrypter_Read poisoned0 \<lparr>rdata = envelope1, rfail = False\<rparr>))) = None \<and>
   cipher (fst (snd (Decrypter_Read poisoned0 \<lparr>rdata = envelope0, rfail = False\<rparr>))) =
     cipher poisoned0"
proof -
  have c: "cipher poisoned0 \<noteq> None" by (simp add: poisoned0_def)
  note t1 = Decrypt_cached_cipher_ignores_phrase
    [of loaded0 toy wrong0 phrase0 wrong0 "E errors_Decrypt" poisoned0 phrase0
        "\<lparr>rdata = envelope1, rfail = False\<rparr>"
        "fst (Decrypter_Read poisoned0 \<lparr>rdata = envelope1, rfail = False\<rparr>)"
        "fst (snd (Decrypter_Read poisoned0 \<lparr>rdata = envelope1, rfail = False\<rparr>))"
        "snd (snd (Decrypter_Read poisoned0 \<lparr>rdata = envelope1, rfail = False\<rparr>))"]
  note t2 = Decrypt_cached_cipher_ignores_phrase
    [of poisoned0 toy wrong0 phrase0 wrong0 "E errors_Decrypt" poisoned0 phrase0
        "\<lparr>rdata = envelope0, rfail = False\<rparr>"
        "fst (Decrypter_Read poisoned0 \<lparr>rdata = envelope0, rfail = False\<rparr>)"
        "fst (snd (Decrypter_Read poisoned0 \<lparr>rdata = envelope0, rfail = False\<rparr>))"
        "snd (snd (Decrypter_Read poisoned0 \<lparr>rdata = envelope0, rfail = False\<rparr>))"]
  from t1 Decrypt_loaded0_wrong c
  have stuck: "Decrypter_Decrypt toy poisoned0 phrase0 = ((None, Some (E errors_Decrypt)), poisoned0)"
    by blast
  from t2 c have same: "Decrypter_Decrypt toy poisoned0 wrong0 = Decrypter_Decrypt toy poisoned0 phrase0"
    by blast
  from t1 have wiped: "cipher (Wipe poisoned0) = None" by blast
  have s1: "salt (fst (snd (Decrypter_Read poisoned0 \<lparr>rdata = envelope1, rfail = False\<rparr>)))
              \<noteq> salt poisoned0"
    unfolding envelope1_def
    using Read_envelope [of poisoned0 "replicate 32 0x3C" "replicate 12 0xA5" sealed0]
    by (simp add: poisoned0_def loaded0_fields slice_def)
  have s0: "salt (fst (snd (Decrypter_Read poisoned0 \<lparr>rdata = envelope0, rfail = False\<rparr>)))
              = salt poisoned0"
    unfolding envelope0_def
    using Read_envelope [of poisoned0 "replicate 32 0x5A" "replicate 12 0xA5" sealed0]
    by (simp add: poisoned0_def loaded0_fields slice_def)
  from t1 s1 have r1: "cipher (fst (snd (Decrypter_Read poisoned0 \<lparr>rdata = envelope1, rfail = False\<rparr>))) = None"
    by simp
  from t2 s0 have r0: "cipher (fst (snd (Decrypter_Read poisoned0 \<lparr>rdata = envelope0, rfail = False\<rparr>))) =
     cipher poisoned0"
    by simp
  from Read_envelope0 Decrypt_loaded0_right Decrypt_loaded0_wrong c stuck same wiped r1 r0
  show ?thesis by simp
qed

section \<open>Round trip\<close>

lemma Encrypt_then_Write_eq:
  "Encrypt_then_Write L rnd K P =
     (if length (rdata rnd) < 32 then Inl (E errors_Salt)
      else case aes_NewGCM L (argon2_IDKey L K (take 32 (rdata rnd)) 32) of
        None \<Rightarrow> Inl (E errors_Cipher)
      | Some a \<Rightarrow>
          if length (rdata rnd) - 32 < aead_NonceSize L a then Inl (E errors_Encrypt)
          else Inr (Bytes newCurrentMetadata @ take 32 (rdata rnd)
                    @ take (aead_NonceSize L a) (drop 32 (rdata rnd))
                    @ aead_Seal L a (take (aead_NonceSize L a) (drop 32 (rdata rnd))) P []))"
proof (cases "length (rdata rnd) < 32")
  case True
  then have "NewSalt rnd 32 = ((None, length (rdata rnd), Some (E errors_Salt)), rnd\<lparr>rdata := []\<rparr>)"
    by (simp add: NewSalt_def ReadFull_short)
  then have "Encrypter_Init L NewEncrypter rnd K =
               (Some (E errors_Salt), NewEncrypter\<lparr>initialized := True\<rparr>, rnd\<lparr>rdata := []\<rparr>)"
    by (simp add: Encrypter_Init_def NewEncrypter_def SaltSize_def Let_def)
  with True show ?thesis
    by (simp add: Encrypt_then_Write_def Encrypter_Encrypt_def)
next
  case False
  then have salt: "NewSalt rnd 32 = ((Some (take 32 (rdata rnd)), 32, None), rnd\<lparr>rdata := drop 32 (rdata rnd)\<rparr>)"
    by (simp add: NewSalt_def ReadFull_enough)
  show ?thesis
  proof (cases "aes_NewGCM L (argon2_IDKey L K (take 32 (rdata rnd)) 32)")
    case None
    then have "Encrypter_Init L NewEncrypter rnd K =
       (Some (E errors_Cipher), NewEncrypter\<lparr>initialized := True, salt := Some (take 32 (rdata rnd))\<rparr>,
        rnd\<lparr>rdata := drop 32 (rdata rnd)\<rparr>)"
      using salt
      by (simp add: Encrypter_Init_def NewEncrypter_def SaltSize_def Let_def NewCipher_def
          GenerateKey_def slice_def uint32_32 Aes256BlockSize_def)
    with False None show ?thesis
      by (simp add: Encrypt_then_Write_def Encrypter_Encrypt_def)
  next
    case (Some a)
    then have init: "Encrypter_Init L NewEncrypter rnd K =
       (None, NewEncrypter\<lparr>initialized := True, salt := Some (take 32 (rdata rnd)),
                cipher := Some \<lparr>cblockSize = 32, aead = a\<rparr>\<rparr>,
        rnd\<lparr>rdata := drop 32 (rdata rnd)\<rparr>)"
      using salt
      by (simp add: Encrypter_Init_def NewEncrypter_def SaltSize_def Let_def NewCipher_def
          GenerateKey_def slice_def uint32_32 Aes256BlockSize_def)
    show ?thesis
    proof (cases "length (rdata rnd) - 32 < aead_NonceSize L a")
      case True
      then have "Cipher_Encrypt L \<lparr>cblockSize = 32, aead = a\<rparr> (rnd\<lparr>rdata := drop 32 (rdata rnd)\<rparr>) P None
                   = ((None, None, Some (E errors_Encrypt)), rnd\<lparr>rdata := []\<rparr>)"
        by (simp add: Cipher_Encrypt_def ReadFull_short)
      with init True False Some show ?thesis
        by (simp add: Encrypt_then_Write_def Encrypter_Encrypt_def Let_def)
    next
      case enough: False
      then have "Cipher_Encrypt L \<lparr>cblockSize = 32, aead = a\<rparr> (rnd\<lparr>rdata := drop 32 (rdata rnd)\<rparr>) P None
                   = ((Some (take (aead_NonceSize L a) (drop 32 (rdata rnd))),
                       Some (aead_Seal L a (take (aead_NonceSize L a) (drop 32 (rdata rnd))) P []),
                       None),
                      rnd\<lparr>rdata := drop (aead_NonceSize L a + 32) (rdata rnd)\<rparr>)"
        by (simp add: Cipher_Encrypt_def ReadFull_enough slice_def)
      with init enough False Some show ?thesis
        by (simp add: Encrypt_then_Write_def Encrypter_Encrypt_def Let_def Encrypter_Write_def buffer_Write_def IsReady_def NewEncrypter_def slice_def)
    qed
  qed
qed

lemma Read_then_Decrypt_eq:
  assumes s: "length s = 32" and n: "length n = 12"
  shows "Read_then_Decrypt L (Bytes newCurrentMetadata @ s @ n @ ct) K =
           (case aes_NewGCM L (argon2_IDKey L K s 32) of
              None \<Rightarrow> Inl (E errors_Cipher)
            | Some a \<Rightarrow>
                if aead_NonceSize L a \<noteq> 12 then Inl Panic
                else case aead_Open L a n ct [] of
                  None \<Rightarrow> Inl (E errors_Decrypt)
                | Some plaintext \<Rightarrow> Inr plaintext)"
proof (cases "aes_NewGCM L (argon2_IDKey L K s 32)")
  case None
  then show ?thesis
    by (simp add: Read_then_Decrypt_def Read_default [OF s n] Decrypt_no_cipher
        NewDecrypter_fields slice_def uint32_32)
next
  case (Some a)
  then show ?thesis
    using n
    by (simp add: Read_then_Decrypt_def Read_default [OF s n] Decrypt_derive
        NewDecrypter_fields slice_def uint32_32 Cipher_Decrypt_def split: option.splits)
qed

text \<open>
  Claim C1. Let the key derivation return keys of the requested length, AES-GCM accept
  32-byte keys and use 12-byte nonces, and \<open>Open\<close> invert \<open>Seal\<close> under the same key
  and nonce. Then for every phrase \<open>K\<close> and plaintext \<open>P\<close>: when the random source
  holds the 44 bytes of salt and nonce, a default Encrypter produces an envelope; and
  whenever it produces an envelope, a default Decrypter that reads it and decrypts
  with \<open>K\<close> returns exactly \<open>P\<close>.
\<close>

theorem round_trip:
  assumes key_len: "\<And>phrase s n. length (argon2_IDKey L phrase s n) = n"
    and key_ok: "\<And>key. length key = 32 \<Longrightarrow> aes_NewGCM L key \<noteq> None"
    and nonce_size: "\<And>key a. aes_NewGCM L key = Some a \<Longrightarrow> aead_NonceSize L a = 12"
    and seal_open: "\<And>key a n plaintext. aes_NewGCM L key = Some a \<Longrightarrow> length n = 12 \<Longrightarrow>
                      aead_Open L a n (aead_Seal L a n plaintext []) [] = Some plaintext"
  shows "(SaltSize + NonceSize \<le> length (rdata rnd) \<longrightarrow>
            (\<exists>envelope. Encrypt_then_Write L rnd K P = Inr envelope)) \<and>
         (Encrypt_then_Write L rnd K P = Inr envelope \<longrightarrow>
            Read_then_Decrypt L envelope K = Inr P)"
proof -
  obtain a where a: "aes_NewGCM L (argon2_IDKey L K (take 32 (rdata rnd)) 32) = Some a"
    using key_ok [OF key_len] by blast
  have ns: "aead_NonceSize L a = 12" using nonce_size [OF a] .
  have produced: "\<exists>envelope. Encrypt_then_Write L rnd K P = Inr envelope"
    if "SaltSize + NonceSize \<le> length (rdata rnd)"
    using that by (simp add: Encrypt_then_Write_eq a ns SaltSize_def NonceSize_def)
  have returned: "Read_then_Decrypt L envelope K = Inr P"
    if ew: "Encrypt_then_Write L rnd K P = Inr envelope"
  proof -
    from ew have len: "44 \<le> length (rdata rnd)"
      by (simp add: Encrypt_then_Write_eq a ns split: if_splits)
    with ew have env: "envelope = Bytes newCurrentMetadata @ take 32 (rdata rnd)
                    @ take 12 (drop 32 (rdata rnd))
                    @ aead_Seal L a (take 12 (drop 32 (rdata rnd))) P []"
      by (simp add: Encrypt_then_Write_eq a ns split: if_splits)
    have ls: "length (take 32 (rdata rnd)) = 32" using len by simp
    have ln: "length (take 12 (drop 32 (rdata rnd))) = 12" using len by simp
    show ?thesis
      unfolding env
      by (simp add: Read_then_Decrypt_eq [OF ls ln] a ns seal_open [OF a ln])
  qed
  from produced returned show ?thesis by blast
qed

theorem round_trip_witness:
  "SaltSize + NonceSize \<le> length (rdata rnd44) \<and>
   Encrypt_then_Write toy rnd44 phrase0 plain0 = Inr envelope0 \<and>
   Read_then_Decrypt toy envelope0 phrase0 = Inr plain0"
proof -
  have len: "SaltSize + NonceSize \<le> length (rdata rnd44)"
    by (simp add: SaltSize_def NonceSize_def rnd44_def)
  have ew: "Encrypt_then_Write toy rnd44 phrase0 plain0 = Inr envelope0"
    by (simp add: Encrypt_then_Write_def Encrypt_rnd44 Write_to_buffer [where m = newCurrentMetadata]
        encrypted0_def initialized0_def NewEncrypter_fields slice_def envelope0_def)
  have "(SaltSize + NonceSize \<le> length (rdata rnd44) \<longrightarrow>
            (\<exists>envelope. Encrypt_then_Write toy rnd44 phrase0 plain0 = Inr envelope)) \<and>
        (Encrypt_then_Write toy rnd44 phrase0 plain0 = Inr envelope0 \<longrightarrow>
            Read_then_Decrypt toy envelope0 phrase0 = Inr plain0)"
  proof (rule round_trip)
    show "length (argon2_IDKey toy phrase s n) = n" for phrase s n
      by (rule toy_key_len)
    show "aes_NewGCM toy key \<noteq> None" if "length key = 32" for key
      using that by (rule toy_key_ok)
    show "aead_NonceSize toy a = 12" if "aes_NewGCM toy key = Some a" for key a
      using that by (rule toy_nonce_size)
    show "aead_Open toy a n (aead_Seal toy a n plaintext []) [] = Some plaintext"
      if "aes_NewGCM toy key = Some a" and "length n = 12" for key a n plaintext
      using that by (rule toy_seal_open)
  qed
  with ew have "Read_then_Decrypt toy envelope0 phrase0 = Inr plain0"
    by simp
  with len ew show ?thesis by simp
qed

section \<open>Wipe\<close>

text \<open>
  Claim C8. For every session state, \<open>Wipe\<close> sets nonce, ciphertext, salt and the
  cached cipher to nil and the initialized flag to false; the configured salt size,
  block size, nonce size and the extension are unchanged (and so are the metadata and
  the preserve-key flag).
\<close>

theorem Wipe_clears_and_preserves:
  "nonce (Wipe c) = None \<and> ciphertext (Wipe c) = None \<and> salt (Wipe c) = None \<and>
   cipher (Wipe c) = None \<and> initialized (Wipe c) = False \<and> IsReady (Wipe c) = False \<and>
   saltSize (Wipe c) = saltSize c \<and> blockSize (Wipe c) = blockSize c \<and>
   nonceSize (Wipe c) = nonceSize c \<and> ext (Wipe c) = ext c \<and>
   metadata (Wipe c) = metadata c \<and> preserveKey (Wipe c) = preserveKey c"
  by (simp add: Wipe_def IsReady_def)

section \<open>File names\<close>

lemma HasSuffix_append: "HasSuffix (b @ suf) suf"
  by (simp add: HasSuffix_def)

lemma HasSuffix_split: "HasSuffix s suf \<Longrightarrow> s = take (length s - length suf) s @ suf"
  by (metis HasSuffix_def append_take_drop_id)

lemma dot_prefix: "e \<noteq> [] \<Longrightarrow> HasPrefix e ''.'' \<longleftrightarrow> hd e = CHR ''.''"
  by (cases e) (simp_all add: HasPrefix_def)

text \<open>
  Claim C9. With a non-empty extension, let \<open>suf\<close> be the extension with a leading dot
  (added only when the extension does not start with one). The encrypted name is the
  base name followed by \<open>suf\<close>. The decrypted name of \<open>b @ suf\<close> with \<open>b\<close> non-empty is
  \<open>b\<close>; a name that is not of this form (it does not end with \<open>suf\<close>, or it is \<open>suf\<close>
  itself) is returned unchanged. With the extension \<open>celo\<close> the three names of the
  specification come out as stated.
\<close>

theorem file_names:
  "ext c \<noteq> [] \<Longrightarrow>
     (let suf = (if hd (ext c) = CHR ''.'' then ext c else ''.'' @ ext c) in
        GetEncryptedFileName c base = base @ suf \<and>
        (\<forall>b. b \<noteq> [] \<longrightarrow> GetDecryptedFileName c (b @ suf) = b) \<and>
        ((\<forall>b. b \<noteq> [] \<longrightarrow> name \<noteq> b @ suf) \<longrightarrow> GetDecryptedFileName c name = name)) \<and>
     GetEncryptedFileName (c\<lparr>ext := ''celo''\<rparr>) ''book_draft.md'' = ''book_draft.md.celo'' \<and>
     GetDecryptedFileName (c\<lparr>ext := ''celo''\<rparr>) ''book_draft.md.celo'' = ''book_draft.md'' \<and>
     GetDecryptedFileName (c\<lparr>ext := ''celo''\<rparr>) ''celo'' = ''celo''"
proof -
  assume ne: "ext c \<noteq> []"
  define suf where "suf = (if hd (ext c) = CHR ''.'' then ext c else ''.'' @ ext c)"
  have suf: "(if \<not> HasPrefix (ext c) ''.'' then ''.'' @ ext c else ext c) = suf"
    using ne by (simp add: suf_def dot_prefix)
  have enc: "GetEncryptedFileName c base = base @ suf"
    using ne suf by (simp add: GetEncryptedFileName_def Let_def)
  have dec: "GetDecryptedFileName c n =
               (if HasSuffix n suf \<and> n \<noteq> suf then TrimSuffix n suf else n)" for n
    using ne suf by (simp add: GetDecryptedFileName_def Let_def)
  have strip: "GetDecryptedFileName c (b @ suf) = b" if "b \<noteq> []" for b
    using that by (simp add: dec HasSuffix_append TrimSuffix_def)
  have keep: "GetDecryptedFileName c name = name" if other: "\<forall>b. b \<noteq> [] \<longrightarrow> name \<noteq> b @ suf"
  proof (cases "HasSuffix name suf \<and> name \<noteq> suf")
    case True
    then have split: "name = take (length name - length suf) name @ suf"
      using HasSuffix_split by blast
    with True have "take (length name - length suf) name \<noteq> []"
      by (metis append_Nil)
    with other split show ?thesis by blast
  next
    case False
    then show ?thesis by (auto simp: dec)
  qed
  have celo: "GetEncryptedFileName (c\<lparr>ext := ''celo''\<rparr>) ''book_draft.md'' = ''book_draft.md.celo'' \<and>
     GetDecryptedFileName (c\<lparr>ext := ''celo''\<rparr>) ''book_draft.md.celo'' = ''book_draft.md'' \<and>
     GetDecryptedFileName (c\<lparr>ext := ''celo''\<rparr>) ''celo'' = ''celo''"
    by (simp add: GetEncryptedFileName_def GetDecryptedFileName_def HasPrefix_def
        HasSuffix_def TrimSuffix_def)
  show ?thesis
    unfolding Let_def suf_def [symmetric] using enc strip keep celo by blast
qed

theorem file_names_witness:
  "ext (NewEncrypter :: bytes celo) \<noteq> [] \<and>
   GetEncryptedFileName (NewEncrypter :: bytes celo) ''notes.txt'' = ''notes.txt.celo'' \<and>
   GetDecryptedFileName (NewEncrypter :: bytes celo) ''notes.txt.celo'' = ''notes.txt'' \<and>
   GetDecryptedFileName (NewEncrypter :: bytes celo) ''.celo'' = ''.celo''"
proof -
  have ne: "ext (NewEncrypter :: bytes celo) \<noteq> []"
    by (simp add: NewEncrypter_def Extension_def)
  have suf: "(if hd (ext (NewEncrypter :: bytes celo)) = CHR ''.''
              then ext (NewEncrypter :: bytes celo)
              else ''.'' @ ext (NewEncrypter :: bytes celo)) = ''.celo''"
    by (simp add: NewEncrypter_def Extension_def)
  note th = file_names [OF ne, of "''notes.txt''" "''.celo''", unfolded Let_def suf]
  from th have enc: "GetEncryptedFileName (NewEncrypter :: bytes celo) ''notes.txt'' = ''notes.txt.celo''"
    by simp
  from th have "\<forall>b. b \<noteq> [] \<longrightarrow> GetDecryptedFileName (NewEncrypter :: bytes celo) (b @ ''.celo'') = b"
    by (rule conjunct1 [THEN conjunct2, THEN conjunct1])
  then have "''notes.txt'' \<noteq> [] \<longrightarrow>
      GetDecryptedFileName (NewEncrypter :: bytes celo) (''notes.txt'' @ ''.celo'') = ''notes.txt''"
    by (rule spec)
  then have dec: "GetDecryptedFileName (NewEncrypter :: bytes celo) ''notes.txt.celo'' = ''notes.txt''"
    by simp
  from th have "(\<forall>b. b \<noteq> [] \<longrightarrow> ''.celo'' \<noteq> b @ ''.celo'')
                  \<longrightarrow> GetDecryptedFileName (NewEncrypter :: bytes celo) ''.celo'' = ''.celo''"
    by (rule conjunct1 [THEN conjunct2, THEN conjunct2])
  then have bare: "GetDecryptedFileName (NewEncrypter :: bytes celo) ''.celo'' = ''.celo''"
    by simp
  from ne enc dec bare show ?thesis by simp
qed

end
